theory Spec2Isabelle
  imports Main "HOL-Library.AList"
begin

section \<open>The browser-automation boundary\<close>

text \<open>
  The scraper of \<^verbatim>\<open>src/eproc_scraper.py\<close> reads pages through Selenium. A page
  is a tree of elements; an element has a tag name, attributes, a visible text and child
  elements. Only the operations the scraper calls are modelled:
  \<^verbatim>\<open>find_elements(By.TAG_NAME, t)\<close>, \<^verbatim>\<open>find_element(By.TAG_NAME, t)\<close>,
  \<^verbatim>\<open>find_elements(By.XPATH, ".//*")\<close>, \<^verbatim>\<open>get_attribute\<close>,
  \<^verbatim>\<open>.text\<close>, \<^verbatim>\<open>.tag_name\<close>, and the two XPath shapes
  \<^verbatim>\<open>//*[@id="I"]\<close> and \<^verbatim>\<open>//*[@id="I"]/T\<close> evaluated on the current
  document. The pages of a site do not change during a run, and the fixed sleeps of the
  code have no counterpart.
\<close>

datatype element =
  Element (tag_name: string) (attributes: "(string \<times> string) list")
          (text_of: string) (children: "element list")

text \<open>All descendants of an element in document order, \<^verbatim>\<open>.//*\<close>.\<close>

fun descendants :: "element \<Rightarrow> element list" where
  "descendants (Element t a x cs) = concat (map (\<lambda>c. c # descendants c) cs)"

definition get_attribute :: "element \<Rightarrow> string \<Rightarrow> string option" where
  "get_attribute e n = map_of (attributes e) n"

datatype excecao =
    NoSuchElementException
  | StaleElementReferenceException
  | WebDriverException

definition find_elements_tag :: "string \<Rightarrow> element \<Rightarrow> element list" where
  "find_elements_tag t e = filter (\<lambda>d. tag_name d = t) (descendants e)"

definition find_element_tag :: "string \<Rightarrow> element \<Rightarrow> excecao + element" where
  "find_element_tag t e =
     (case find_elements_tag t e of
        [] \<Rightarrow> Inl NoSuchElementException
      | d # _ \<Rightarrow> Inr d)"

text \<open>
  \<^verbatim>\<open>//*[@id="I"]\<close> on a document: every element of the document, the root included,
  whose \<^verbatim>\<open>id\<close> attribute is \<open>I\<close>, in document order.
\<close>

definition xpath_id :: "string \<Rightarrow> element \<Rightarrow> element list" where
  "xpath_id i root =
     filter (\<lambda>d. get_attribute d ''id'' = Some i) (root # descendants root)"

text \<open>
  \<^verbatim>\<open>//*[@id="I"]/T\<close> on a document: every element with tag \<open>T\<close> whose parent has
  the \<^verbatim>\<open>id\<close> attribute \<open>I\<close>, in document order.
\<close>

fun xpath_id_child :: "string \<Rightarrow> string \<Rightarrow> element \<Rightarrow> element list" where
  "xpath_id_child i t (Element tg a x cs) =
     concat (map (\<lambda>c. (if map_of a ''id'' = Some i \<and> tag_name c = t then [c] else [])
                        @ xpath_id_child i t c) cs)"

text \<open>
  The web the browser talks to, fixed for the duration of a run. \<open>paginas url\<close> is the
  document \<^verbatim>\<open>driver.get(url)\<close> loads, \<open>None\<close> when the call raises. \<open>submeter nome\<close>
  is the document shown after \<open>nome\<close> was typed into the name field of the portal and the
  search button clicked, \<open>None\<close> when \<^verbatim>\<open>clear\<close>, \<^verbatim>\<open>send_keys\<close> or \<^verbatim>\<open>click\<close>
  raises.
\<close>

record site =
  paginas :: "string \<Rightarrow> element option"
  submeter :: "string \<Rightarrow> element option"

type_synonym processo = "(string \<times> string) list"

text \<open>
  The state of \<^verbatim>\<open>self.driver\<close> that the pipeline depends on: the document the
  browser currently shows, \<open>None\<close> before the first navigation.
\<close>

type_synonym driver = "element option"

text \<open>
  The attributes of \<^verbatim>\<open>EProcScraper\<close> that the pipeline reads and writes:
  \<^verbatim>\<open>self.driver\<close> and the dictionary \<^verbatim>\<open>self.resultados\<close>. A Python dictionary
  keeps its keys in insertion order, so it is an association list written with
  \<^const>\<open>AList.update\<close>.
\<close>

record scraper =
  driver :: driver
  resultados :: "(string \<times> processo list) list"

definition EPROC_URL :: string where
  "EPROC_URL = ''https://eproc-consulta-publica-1g.tjmg.jus.br/eproc/externo_controlador.php?acao=processo_consulta_publica''"

text \<open>
  \<^verbatim>\<open>driver.get(url)\<close>. The argument is what \<^verbatim>\<open>get_attribute("href")\<close> returned, so
  it may be \<^verbatim>\<open>None\<close>, which the driver rejects with an exception.
\<close>

definition driver_get :: "site \<Rightarrow> string option \<Rightarrow> driver \<Rightarrow> (excecao + unit) \<times> driver" where
  "driver_get w url d =
     (case url of
        None \<Rightarrow> (Inl WebDriverException, d)
      | Some u \<Rightarrow>
          (case paginas w u of
             None \<Rightarrow> (Inl WebDriverException, d)
           | Some p \<Rightarrow> (Inr (), Some p)))"

definition driver_find_id :: "string \<Rightarrow> driver \<Rightarrow> excecao + element" where
  "driver_find_id i d =
     (case d of
        None \<Rightarrow> Inl NoSuchElementException
      | Some root \<Rightarrow>
          (case xpath_id i root of
             [] \<Rightarrow> Inl NoSuchElementException
           | el # _ \<Rightarrow> Inr el))"

definition driver_find_id_child :: "string \<Rightarrow> string \<Rightarrow> driver \<Rightarrow> excecao + element" where
  "driver_find_id_child i t d =
     (case d of
        None \<Rightarrow> Inl NoSuchElementException
      | Some root \<Rightarrow>
          (case xpath_id_child i t root of
             [] \<Rightarrow> Inl NoSuchElementException
           | el # _ \<Rightarrow> Inr el))"

text \<open>
  \<^verbatim>\<open>_aguardar_elemento(By.XPATH, '//*[@id="I"]')\<close>: the element, or \<^verbatim>\<open>None\<close> after
  the timeout.
\<close>

definition aguardar_elemento :: "string \<Rightarrow> driver \<Rightarrow> element option" where
  "aguardar_elemento i d =
     (case driver_find_id i d of
        Inl _ \<Rightarrow> None
      | Inr el \<Rightarrow> Some el)"

section \<open>Searching for a name\<close>

text \<open>
  \<^verbatim>\<open>realizar_busca\<close>: every exception is caught and turned into \<^verbatim>\<open>False\<close>.
\<close>

definition realizar_busca :: "site \<Rightarrow> string \<Rightarrow> driver \<Rightarrow> bool \<times> driver" where
  "realizar_busca w nome d =
     (case driver_get w (Some EPROC_URL) d of
        (Inl _, d1) \<Rightarrow> (False, d1)
      | (Inr _, d1) \<Rightarrow>
          (case aguardar_elemento ''txtStrParte'' d1 of
             None \<Rightarrow> (False, d1)
           | Some campo_nome \<Rightarrow>
               (case aguardar_elemento ''sbmNovo'' d1 of
                  None \<Rightarrow> (False, d1)
                | Some botao_pesquisar \<Rightarrow>
                    (case submeter w nome of
                       None \<Rightarrow> (False, d1)
                     | Some p \<Rightarrow> (True, Some p)))))"

section \<open>Extracting the cases of a results page\<close>

text \<open>
  The first loop of \<^verbatim>\<open>extrair_dados_processos\<close> (over the rows of the results
  table). A row with no \<^verbatim>\<open>td\<close> is skipped by the bare \<^verbatim>\<open>except\<close>; a cell with
  no anchor raises inside the outer \<^verbatim>\<open>try\<close> of the loop body, which logs a warning
  and continues; an anchor whose text differs from the queried name is skipped; otherwise
  the anchor's \<^verbatim>\<open>href\<close> is appended to \<^verbatim>\<open>links\<close>.
\<close>

fun laco_linhas :: "string \<Rightarrow> element list \<Rightarrow> string option list \<Rightarrow> string option list" where
  "laco_linhas nome_consultado [] links = links"
| "laco_linhas nome_consultado (linha # linhas) links =
     (case find_element_tag ''td'' linha of
        Inl _ \<Rightarrow> laco_linhas nome_consultado linhas links
      | Inr celulas \<Rightarrow>
          (case find_element_tag ''a'' celulas of
             Inl _ \<Rightarrow> laco_linhas nome_consultado linhas links
           | Inr nome \<Rightarrow>
               if text_of nome \<noteq> nome_consultado
               then laco_linhas nome_consultado linhas links
               else laco_linhas nome_consultado linhas
                      (links @ [get_attribute nome ''href''])))"

text \<open>
  The scan of one \<^verbatim>\<open>div\<close>: \<^verbatim>\<open>chave\<close> and \<^verbatim>\<open>valor\<close> start empty, a
  \<^verbatim>\<open>label\<close> element sets \<^verbatim>\<open>chave\<close>, a \<^verbatim>\<open>span\<close> element sets \<^verbatim>\<open>valor\<close>,
  anything else is passed over.
\<close>

fun laco_elements :: "element list \<Rightarrow> string \<Rightarrow> string \<Rightarrow> string \<times> string" where
  "laco_elements [] chave valor = (chave, valor)"
| "laco_elements (el # elements) chave valor =
     (if tag_name el = ''label'' then laco_elements elements (text_of el) valor
      else if tag_name el = ''span'' then laco_elements elements chave (text_of el)
      else laco_elements elements chave valor)"

text \<open>
  The loop over the \<^verbatim>\<open>div\<close> elements of the summary: after the scan of a
  \<^verbatim>\<open>div\<close>, \<^verbatim>\<open>processo_info[chave] = valor\<close>.
\<close>

fun laco_divs :: "element list \<Rightarrow> processo \<Rightarrow> processo" where
  "laco_divs [] processo_info = processo_info"
| "laco_divs (dv # divs) processo_info =
     (case laco_elements (descendants dv) [] [] of
        (chave, valor) \<Rightarrow> laco_divs divs (AList.update chave valor processo_info))"

text \<open>
  The loop over the rows of the table on a link's page. It only assigns
  \<^verbatim>\<open>celulas\<close>; the value left after the loop is the cell of the last row that has
  one. The variable is passed as an option: \<open>None\<close> stands for the value it still holds
  from the results page, an element of a document that the navigation has replaced.
\<close>

fun laco_celulas :: "element list \<Rightarrow> element option \<Rightarrow> element option" where
  "laco_celulas [] celulas = celulas"
| "laco_celulas (linha # linhas) celulas =
     (case find_element_tag ''td'' linha of
        Inl _ \<Rightarrow> laco_celulas linhas celulas
      | Inr c \<Rightarrow> laco_celulas linhas (Some c))"

text \<open>
  The body of the second loop of \<^verbatim>\<open>extrair_dados_processos\<close>, for one link. The
  result is \<open>Inl\<close> when a statement of the body raises.
  When the table is missing on the link's page the code only logs a warning, so
  \<^verbatim>\<open>tabela\<close> keeps an element of the previous document and the next statement,
  \<^verbatim>\<open>tabela.find_elements\<close>, raises \<^verbatim>\<open>StaleElementReferenceException\<close>. The same
  holds for \<^verbatim>\<open>celulas\<close> when no row of the table has a cell.
\<close>

definition visitar_link :: "site \<Rightarrow> string option \<Rightarrow> driver \<Rightarrow> (excecao + processo) \<times> driver" where
  "visitar_link w link d =
     (case driver_get w link d of
        (Inl e, d1) \<Rightarrow> (Inl e, d1)
      | (Inr _, d1) \<Rightarrow>
          (case driver_find_id_child ''divInfraAreaTabela'' ''table'' d1 of
             Inl _ \<Rightarrow> (Inl StaleElementReferenceException, d1)
           | Inr tabela \<Rightarrow>
               (case laco_celulas (find_elements_tag ''tr'' tabela) None of
                  None \<Rightarrow> (Inl StaleElementReferenceException, d1)
                | Some celulas \<Rightarrow>
                    (case find_element_tag ''a'' celulas of
                       Inl e \<Rightarrow> (Inl e, d1)
                     | Inr processo \<Rightarrow>
                         (case driver_get w (get_attribute processo ''href'') d1 of
                            (Inl e, d2) \<Rightarrow> (Inl e, d2)
                          | (Inr _, d2) \<Rightarrow>
                              (case driver_find_id ''fldAssuntos'' d2 of
                                 Inl e \<Rightarrow> (Inl e, d2)
                               | Inr capa \<Rightarrow>
                                   (Inr (laco_divs (find_elements_tag ''div'' capa) []),
                                    d2)))))))"

text \<open>
  The second loop. No handler surrounds the body: an exception leaves the loop and
  reaches the handler of the whole function, which logs it, and the function returns
  the records appended so far.
\<close>

fun laco_links :: "site \<Rightarrow> string option list \<Rightarrow> processo list \<Rightarrow> driver \<Rightarrow> processo list \<times> driver" where
  "laco_links w [] processos d = (processos, d)"
| "laco_links w (link # links) processos d =
     (case visitar_link w link d of
        (Inl e, d1) \<Rightarrow> (processos, d1)
      | (Inr processo_info, d1) \<Rightarrow> laco_links w links (processos @ [processo_info]) d1)"

text \<open>
  \<^verbatim>\<open>extrair_dados_processos\<close>. A found \<^verbatim>\<open>mensagem_vazia\<close> is a
  \<^verbatim>\<open>WebElement\<close>, which is always true in a condition.
\<close>

definition extrair_dados_processos :: "site \<Rightarrow> string \<Rightarrow> driver \<Rightarrow> processo list \<times> driver" where
  "extrair_dados_processos w nome_consultado d =
     (case driver_find_id_child ''divInfraAreaTabela'' ''label'' d of
        Inr mensagem_vazia \<Rightarrow> ([], d)
      | Inl _ \<Rightarrow>
          (case driver_find_id_child ''divInfraAreaTabela'' ''table'' d of
             Inl _ \<Rightarrow> ([], d)
           | Inr tabela \<Rightarrow>
               laco_links w
                 (laco_linhas nome_consultado (find_elements_tag ''tr'' tabela) []) [] d))"

section \<open>The run\<close>

text \<open>\<^verbatim>\<open>self.resultados[nome] = processos\<close>.\<close>

definition registrar :: "string \<Rightarrow> processo list \<Rightarrow> scraper \<Rightarrow> scraper" where
  "registrar nome processos s = s\<lparr>resultados := AList.update nome processos (resultados s)\<rparr>"

definition processar_nome :: "site \<Rightarrow> string \<Rightarrow> scraper \<Rightarrow> processo list \<times> scraper" where
  "processar_nome w nome s =
     (case realizar_busca w nome (driver s) of
        (False, d1) \<Rightarrow> ([], s\<lparr>driver := d1\<rparr>)
      | (True, d1) \<Rightarrow>
          (case extrair_dados_processos w nome d1 of
             (processos, d2) \<Rightarrow> (processos, registrar nome processos (s\<lparr>driver := d2\<rparr>))))"

text \<open>
  The log lines of \<^verbatim>\<open>processar_todos_nomes\<close>:
  \<^verbatim>\<open>Processando {idx}/{total_nomes}: {nome}\<close> and \<^verbatim>\<open>Erro ao processar {nome}\<close>.
\<close>

datatype linha_log = Processando nat nat string | Erro_ao_processar string

text \<open>
  The loop of \<^verbatim>\<open>processar_todos_nomes\<close>, with the call inside its \<^verbatim>\<open>try\<close> as a
  parameter: \<open>chamar nome s\<close> returns the state the call leaves and \<open>Inl\<close> when it
  raises. The handler logs the error and continues with the next name.
\<close>

fun laco_nomes ::
  "(string \<Rightarrow> 's \<Rightarrow> (excecao + 'r) \<times> 's) \<Rightarrow> nat \<Rightarrow> nat \<Rightarrow> string list \<Rightarrow> linha_log list \<Rightarrow> 's
     \<Rightarrow> linha_log list \<times> 's" where
  "laco_nomes chamar idx total_nomes [] log s = (log, s)"
| "laco_nomes chamar idx total_nomes (nome # nomes) log s =
     (case chamar nome s of
        (Inr _, s1) \<Rightarrow>
          laco_nomes chamar (Suc idx) total_nomes nomes
            (log @ [Processando idx total_nomes nome]) s1
      | (Inl e, s1) \<Rightarrow>
          laco_nomes chamar (Suc idx) total_nomes nomes
            (log @ [Processando idx total_nomes nome, Erro_ao_processar nome]) s1)"

text \<open>
  \<^verbatim>\<open>processar_todos_nomes\<close>: the call is \<^verbatim>\<open>self.processar_nome(nome)\<close>, whose
  callees catch every exception themselves.
\<close>

definition processar_todos_nomes :: "site \<Rightarrow> string list \<Rightarrow> scraper \<Rightarrow> linha_log list \<times> scraper" where
  "processar_todos_nomes w nomes s =
     laco_nomes (\<lambda>nome s0. case processar_nome w nome s0 of (processos, s1) \<Rightarrow> (Inr processos, s1))
       1 (length nomes) nomes [] s"

section \<open>The output document and the summary report\<close>

definition NOMES_CONSULTA :: "string list" where
  "NOMES_CONSULTA =
     [''ADILSON DA SILVA'',
      ''JO'' @ [CHR 0xC3] @ ''O DA SILVA MORAES'',
      ''RICARDO DE JESUS'',
      ''SERGIO FIRMINO DA SILVA'',
      ''HELENA FARIAS DE LIMA'',
      ''PAULO SALIM MALUF'',
      ''PEDRO DE S'' @ [CHR 0xC1]]"

record metadata =
  data_extracao :: string
  total_processos :: nat
  nomes_consultados :: "string list"
  url_fonte :: string

record documento =
  metadata :: metadata
  processos :: "(string \<times> processo list) list"

text \<open>
  The dictionary \<^verbatim>\<open>dados_saida\<close> that \<^verbatim>\<open>salvar_resultados\<close> builds and hands to
  \<^verbatim>\<open>json.dump\<close>; \<open>agora\<close> is \<^verbatim>\<open>datetime.now().isoformat()\<close>.
\<close>

definition dados_saida :: "string \<Rightarrow> scraper \<Rightarrow> documento" where
  "dados_saida agora s =
     \<lparr>metadata =
        \<lparr>data_extracao = agora,
         total_processos = length (resultados s),
         nomes_consultados = NOMES_CONSULTA,
         url_fonte = EPROC_URL\<rparr>,
      processos = resultados s\<rparr>"

record relatorio =
  relatorio_total_processos :: nat
  processos_por_nome :: "(string \<times> nat) list"
  data_geracao :: string

definition gerar_relatorio_resumido :: "string \<Rightarrow> scraper \<Rightarrow> relatorio" where
  "gerar_relatorio_resumido agora s =
     \<lparr>relatorio_total_processos = length (resultados s),
      processos_por_nome = [],
      data_geracao = agora\<rparr>"

section \<open>The specification's wording and sample pages\<close>

text \<open>
  The Results Locator in the specification's words: a row without an inner cell is
  skipped; in each remaining row the anchor is located (a row whose cell has no anchor is
  skipped as well); the rows whose anchor text equals the queried name contribute the
  anchor's target, in row order. The anchor of a row is the first anchor inside the first
  cell of the row.
\<close>

definition ancora_da_linha :: "element \<Rightarrow> element option" where
  "ancora_da_linha linha =
     (case find_elements_tag ''td'' linha of
        [] \<Rightarrow> None
      | celula # _ \<Rightarrow>
          (case find_elements_tag ''a'' celula of
             [] \<Rightarrow> None
           | ancora # _ \<Rightarrow> Some ancora))"

definition links_da_consulta :: "string \<Rightarrow> element \<Rightarrow> string option list" where
  "links_da_consulta nome tabela =
     map (\<lambda>ancora. get_attribute ancora ''href'')
       (filter (\<lambda>ancora. text_of ancora = nome)
          (List.map_filter ancora_da_linha (find_elements_tag ''tr'' tabela)))"

text \<open>
  The Field Extractor in the specification's words: every descendant of a field block has
  a role; the field name of the block is the text of the last descendant with the label
  role, the field value the text of the last one with the value role, and each is the
  empty string when the block has no such descendant.
\<close>

datatype papel = Label | Value | Ignored

definition papel_de :: "element \<Rightarrow> papel" where
  "papel_de el = (if tag_name el = ''label'' then Label
                  else if tag_name el = ''span'' then Value else Ignored)"

definition ultimo_texto :: "papel \<Rightarrow> element list \<Rightarrow> string" where
  "ultimo_texto r els =
     (case filter (\<lambda>el. papel_de el = r) els of
        [] \<Rightarrow> []
      | x # xs \<Rightarrow> text_of (last (x # xs)))"

definition campo_do_bloco :: "element \<Rightarrow> string \<times> string" where
  "campo_do_bloco bloco =
     (ultimo_texto Label (descendants bloco), ultimo_texto Value (descendants bloco))"

text \<open>Sample markup: a results table and its rows, a summary container and its blocks.\<close>

definition linha_resultado :: "string \<Rightarrow> string \<Rightarrow> element" where
  "linha_resultado nome link =
     Element ''tr'' [] nome
       [Element ''td'' [] nome [Element ''a'' [(''href'', link)] nome []]]"

definition linha_cabecalho :: element where
  "linha_cabecalho =
     Element ''tr'' [] ''Nome da Parte'' [Element ''th'' [] ''Nome da Parte'' []]"

definition tabela_de :: "element list \<Rightarrow> element" where
  "tabela_de linhas = Element ''table'' [] [] [Element ''tbody'' [] [] linhas]"

definition rotulo :: "string \<Rightarrow> element" where
  "rotulo t = Element ''label'' [] t []"

definition valor_de :: "string \<Rightarrow> element" where
  "valor_de t = Element ''span'' [] t []"

definition bloco_de :: "element list \<Rightarrow> element" where
  "bloco_de els = Element ''div'' [] [] els"

definition capa_de :: "element list \<Rightarrow> element" where
  "capa_de blocos = Element ''fieldset'' [(''id'', ''fldAssuntos'')] [] blocos"

text \<open>
  The record of a summary container in the specification's words: the field blocks are
  the immediate children of the container; each block, in order, commits its pair into
  the record under construction, keyed by the field name.
\<close>

definition registro_da_capa :: "element \<Rightarrow> processo" where
  "registro_da_capa capa =
     foldl (\<lambda>registro bloco.
              AList.update (fst (campo_do_bloco bloco)) (snd (campo_do_bloco bloco)) registro)
       [] (children capa)"

text \<open>
  A summary container with two blocks whose label and value each sit in an inner
  \<^verbatim>\<open>div\<close> of the block.
\<close>

definition capa_aninhada :: element where
  "capa_aninhada =
     capa_de
       [bloco_de [bloco_de [rotulo ''Classe''],
                  bloco_de [valor_de (''C'' @ [CHR 0xED] @ ''vel'')]],
        bloco_de [bloco_de [rotulo ''Assunto''], bloco_de [valor_de ''Contrato'']]]"

text \<open>The names of the \<^verbatim>\<open>Processando\<close> lines of a log, in order.\<close>

fun nomes_do_log :: "linha_log list \<Rightarrow> string list" where
  "nomes_do_log [] = []"
| "nomes_do_log (Processando idx total_nomes nome # linhas) = nome # nomes_do_log linhas"
| "nomes_do_log (Erro_ao_processar nome # linhas) = nomes_do_log linhas"

text \<open>
  Sample pages: the portal with its name field and search button, and a results page
  that shows the "no results" label; a site that answers the query \<open>ADILSON DA SILVA\<close>
  with that page and fails on every other query.
\<close>

definition pagina_portal :: element where
  "pagina_portal =
     Element ''html'' [] []
       [Element ''input'' [(''id'', ''txtStrParte'')] [] [],
        Element ''button'' [(''id'', ''sbmNovo'')] ''Consultar'' []]"

definition pagina_sem_resultados :: element where
  "pagina_sem_resultados =
     Element ''html'' [] []
       [Element ''div'' [(''id'', ''divInfraAreaTabela'')] []
          [Element ''label'' [] ''Nenhum registro encontrado'' []]]"

definition site_sem_resultados :: site where
  "site_sem_resultados =
     \<lparr>paginas = (\<lambda>url. if url = EPROC_URL then Some pagina_portal else None),
      submeter = (\<lambda>nome.
        if nome = ''ADILSON DA SILVA'' then Some pagina_sem_resultados else None)\<rparr>"

text \<open>A site that is down: every navigation raises.\<close>

definition site_fora_do_ar :: site where
  "site_fora_do_ar = \<lparr>paginas = (\<lambda>url. None), submeter = (\<lambda>nome. None)\<rparr>"

text \<open>
  A site whose results page for any name has three matching rows. Each link leads to a
  page with a one-row table whose anchor leads to the page of the case. The pages of the
  first and third case have the summary container; the page of the second has not.
\<close>

definition pagina_resultados :: "element list \<Rightarrow> element" where
  "pagina_resultados linhas =
     Element ''html'' [] []
       [Element ''div'' [(''id'', ''divInfraAreaTabela'')] [] [tabela_de linhas]]"

definition pagina_processo :: "string \<Rightarrow> element" where
  "pagina_processo classe =
     Element ''html'' [] [] [capa_de [bloco_de [rotulo ''Classe'', valor_de classe]]]"

definition pagina_sem_capa :: element where
  "pagina_sem_capa = Element ''html'' [] [] [Element ''p'' [] ''Processo sob sigilo'' []]"

definition site_tres_links :: site where
  "site_tres_links =
     \<lparr>paginas = (\<lambda>url.
        if url = EPROC_URL then Some pagina_portal
        else if url = ''lista1''
          then Some (pagina_resultados [linha_cabecalho, linha_resultado ''0001'' ''proc1''])
        else if url = ''lista2''
          then Some (pagina_resultados [linha_cabecalho, linha_resultado ''0002'' ''proc2''])
        else if url = ''lista3''
          then Some (pagina_resultados [linha_cabecalho, linha_resultado ''0003'' ''proc3''])
        else if url = ''proc1'' then Some (pagina_processo ''1'')
        else if url = ''proc2'' then Some pagina_sem_capa
        else if url = ''proc3'' then Some (pagina_processo ''3'')
        else None),
      submeter = (\<lambda>nome.
        Some (pagina_resultados
          [linha_cabecalho, linha_resultado nome ''lista1'', linha_resultado nome ''lista2'',
           linha_resultado nome ''lista3'']))\<rparr>"

section \<open>The result store\<close>

text \<open>
  Claim C8. Recording \<open>A\<close> under \<open>X\<close> and then \<open>B\<close> under \<open>X\<close> leaves \<open>B\<close> as the
  entry of \<open>X\<close>; the second recording adds no key (it overwrites, it does not append);
  and recording under \<open>X\<close> leaves the entry of every other name \<open>Y\<close> as it was.
\<close>

theorem registrar_sobrescreve:
  "map_of (resultados (registrar X B (registrar X A s))) X = Some B
   \<and> map fst (resultados (registrar X B (registrar X A s)))
       = map fst (resultados (registrar X A s))
   \<and> (Y \<noteq> X \<longrightarrow> map_of (resultados (registrar X A s)) Y = map_of (resultados s) Y)"
  by (simp add: registrar_def update_conv' update_keys)

theorem registrar_sobrescreve_witness:
  "map_of (resultados (registrar ''X'' [[(''Classe'', ''b'')]]
             (registrar ''X'' [[(''Classe'', ''a'')], []]
                \<lparr>driver = None, resultados = [(''Y'', [[]])]\<rparr>))) ''X''
     = Some [[(''Classe'', ''b'')]]
   \<and> ''Y'' \<noteq> ''X''
   \<and> map_of (resultados (registrar ''X'' [[(''Classe'', ''a'')], []]
                \<lparr>driver = None, resultados = [(''Y'', [[]])]\<rparr>)) ''Y''
     = map_of (resultados \<lparr>driver = None, resultados = [(''Y'', [[]])]\<rparr>) ''Y''"
  using registrar_sobrescreve [of "''X''" "[[(''Classe'', ''b'')]]" "[[(''Classe'', ''a'')], []]"
      "\<lparr>driver = None, resultados = [(''Y'', [[]])]\<rparr>" "''Y''"]
  by simp

section \<open>The output document\<close>

text \<open>
  Claim C3. The \<^verbatim>\<open>processos\<close> member of the document is the result store, but
  \<^verbatim>\<open>total_processos\<close> is the number of names in the store, not the number of
  records: for a store with the single name \<open>A\<close> holding two records the document says
  1, and the lengths of the result sets sum to 2.
\<close>

theorem dados_saida_total_conta_nomes:
  "total_processos (metadata (dados_saida agora s)) = length (resultados s)
   \<and> processos (dados_saida agora s) = resultados s
   \<and> total_processos (metadata (dados_saida ''2025-01-01T00:00:00''
        \<lparr>driver = None,
         resultados = [(''A'', [[(''Classe'', ''1'')], [(''Classe'', ''2'')]])]\<rparr>)) = 1
   \<and> sum_list (map (\<lambda>(nome, registros). length registros)
        (processos (dados_saida ''2025-01-01T00:00:00''
           \<lparr>driver = None,
            resultados = [(''A'', [[(''Classe'', ''1'')], [(''Classe'', ''2'')]])]\<rparr>))) = 2"
  by (simp add: dados_saida_def)

section \<open>The summary report\<close>

text \<open>
  Claim C10. Whatever the result store holds, the report of
  \<^verbatim>\<open>gerar_relatorio_resumido\<close> has the empty dictionary under
  \<^verbatim>\<open>processos_por_nome\<close>.
\<close>

theorem relatorio_processos_por_nome_vazio:
  "processos_por_nome (gerar_relatorio_resumido agora s) = []"
  by (simp add: gerar_relatorio_resumido_def)

section \<open>The Results Locator\<close>

lemma laco_linhas_acc:
  "laco_linhas nome linhas links =
     links @ map (\<lambda>ancora. get_attribute ancora ''href'')
       (filter (\<lambda>ancora. text_of ancora = nome) (List.map_filter ancora_da_linha linhas))"
  by (induction linhas arbitrary: links)
     (auto simp: map_filter_simps ancora_da_linha_def find_element_tag_def split: list.splits)

text \<open>
  Claim C4. The links collected from the rows of a results table are the targets of the
  row anchors whose text equals the queried name, in row order; rows without a cell
  contribute nothing. For the rows \<open>(ADILSON DA SILVA, L1)\<close> and \<open>(OUTRO NOME, L2)\<close> and the
  query \<open>ADILSON DA SILVA\<close> the list is \<open>[L1]\<close>; a header row before a matching row
  changes nothing; and the comparison does not fold case.
\<close>

theorem laco_linhas_links:
  "laco_linhas nome (find_elements_tag ''tr'' tabela) [] = links_da_consulta nome tabela
   \<and> laco_linhas ''ADILSON DA SILVA''
        (find_elements_tag ''tr''
           (tabela_de [linha_resultado ''ADILSON DA SILVA'' L1,
                       linha_resultado ''OUTRO NOME'' L2])) []
       = [Some L1]
   \<and> laco_linhas ''X''
        (find_elements_tag ''tr'' (tabela_de [linha_cabecalho, linha_resultado ''X'' L1])) []
       = [Some L1]
   \<and> laco_linhas ''adilson da silva''
        (find_elements_tag ''tr''
           (tabela_de [linha_resultado ''ADILSON DA SILVA'' L1,
                       linha_resultado ''OUTRO NOME'' L2])) []
       = []"
proof -
  note ev = tabela_de_def linha_resultado_def linha_cabecalho_def find_elements_tag_def
    find_element_tag_def get_attribute_def
  have geral:
    "laco_linhas nome (find_elements_tag ''tr'' tabela) [] = links_da_consulta nome tabela"
    by (simp add: laco_linhas_acc links_da_consulta_def)
  have ex1: "laco_linhas ''ADILSON DA SILVA''
        (find_elements_tag ''tr''
           (tabela_de [linha_resultado ''ADILSON DA SILVA'' L1,
                       linha_resultado ''OUTRO NOME'' L2])) []
       = [Some L1]"
    by (simp add: ev)
  have ex2: "laco_linhas ''X''
        (find_elements_tag ''tr'' (tabela_de [linha_cabecalho, linha_resultado ''X'' L1])) []
       = [Some L1]"
    by (simp add: ev)
  have ex3: "laco_linhas ''adilson da silva''
        (find_elements_tag ''tr''
           (tabela_de [linha_resultado ''ADILSON DA SILVA'' L1,
                       linha_resultado ''OUTRO NOME'' L2])) []
       = []"
    by (simp add: ev)
  from geral ex1 ex2 ex3 show ?thesis by blast
qed

section \<open>The Field Extractor\<close>

lemma laco_elements_ultimo:
  "laco_elements els chave valor =
     (if filter (\<lambda>el. papel_de el = Label) els = [] then chave else ultimo_texto Label els,
      if filter (\<lambda>el. papel_de el = Value) els = [] then valor else ultimo_texto Value els)"
  by (induction els arbitrary: chave valor)
     (auto simp: papel_de_def ultimo_texto_def split: list.splits)

lemma laco_elements_campo: "laco_elements (descendants bloco) [] [] = campo_do_bloco bloco"
  by (simp add: laco_elements_ultimo campo_do_bloco_def ultimo_texto_def)

lemma laco_divs_map_of:
  "map_of (laco_divs divs info) = map_of (rev (map campo_do_bloco divs) @ info)"
proof (induction divs arbitrary: info)
  case Nil
  show ?case by simp
next
  case (Cons dv divs)
  obtain k v where kv: "campo_do_bloco dv = (k, v)"
    by (cases "campo_do_bloco dv")
  have "map_of (laco_divs (dv # divs) info)
          = map_of (rev (map campo_do_bloco divs) @ AList.update k v info)"
    using Cons.IH [of "AList.update k v info"] kv by (simp add: laco_elements_campo)
  also have "\<dots> = map_of (rev (map campo_do_bloco (dv # divs)) @ info)"
    by (simp add: kv update_conv' map_of_append)
  finally show ?case .
qed

lemma ultimo_texto_snoc:
  "filter (\<lambda>el. papel_de el = r) els = xs @ [x] \<Longrightarrow> ultimo_texto r els = text_of x"
  by (cases xs) (simp_all add: ultimo_texto_def)

lemma ultimo_texto_nenhum:
  "filter (\<lambda>el. papel_de el = r) els = [] \<Longrightarrow> ultimo_texto r els = []"
  by (simp add: ultimo_texto_def)

lemma papel_Label: "(papel_de el = Label) = (tag_name el = ''label'')"
  by (simp add: papel_de_def)

lemma papel_Value: "(papel_de el = Value) = (tag_name el = ''span'')"
  by (simp add: papel_de_def)

lemma laco_divs_foldl:
  "laco_divs divs info =
     foldl (\<lambda>registro bloco.
              AList.update (fst (campo_do_bloco bloco)) (snd (campo_do_bloco bloco)) registro)
       info divs"
  by (induction divs arbitrary: info) (simp_all add: laco_elements_campo split: prod.splits)

text \<open>
  Claim C6, as the code has it. The blocks are what
  \<^verbatim>\<open>capa.find_elements(By.TAG_NAME, "div")\<close> returns: every \<^verbatim>\<open>div\<close> below the
  container, at any depth, in document order. The record extracted from them maps the
  field name of each block to its field value, a later block overriding an earlier one
  with the same name, where name and value are read off the label and value roles of the
  block's descendants. When the \<^verbatim>\<open>div\<close> elements below the container are exactly
  its immediate children, the record is that of the immediate child blocks; two such
  blocks \<open>(Classe, v1)\<close> and \<open>(Assunto, v2)\<close> give the record with exactly these two
  fields.
\<close>

theorem laco_divs_registro:
  "map_of (laco_divs (find_elements_tag ''div'' capa) [])
     = map_of (rev (map campo_do_bloco (find_elements_tag ''div'' capa)))
   \<and> (find_elements_tag ''div'' capa = children capa
        \<longrightarrow> laco_divs (find_elements_tag ''div'' capa) [] = registro_da_capa capa)
   \<and> laco_divs (find_elements_tag ''div''
        (capa_de [bloco_de [rotulo ''Classe'', valor_de v1],
                  bloco_de [rotulo ''Assunto'', valor_de v2]])) []
       = [(''Classe'', v1), (''Assunto'', v2)]"
proof -
  have geral: "map_of (laco_divs (find_elements_tag ''div'' capa) [])
     = map_of (rev (map campo_do_bloco (find_elements_tag ''div'' capa)))"
    by (simp add: laco_divs_map_of)
  have plano: "laco_divs (find_elements_tag ''div'' capa) [] = registro_da_capa capa"
    if "find_elements_tag ''div'' capa = children capa"
    using that by (simp add: laco_divs_foldl registro_da_capa_def)
  have ex: "laco_divs (find_elements_tag ''div''
        (capa_de [bloco_de [rotulo ''Classe'', valor_de v1],
                  bloco_de [rotulo ''Assunto'', valor_de v2]])) []
       = [(''Classe'', v1), (''Assunto'', v2)]"
    by (simp add: capa_de_def bloco_de_def rotulo_def valor_de_def find_elements_tag_def)
  from geral plano ex show ?thesis by blast
qed

theorem laco_divs_registro_witness:
  "find_elements_tag ''div''
      (capa_de [bloco_de [rotulo ''Classe'', valor_de (''C'' @ [CHR 0xED] @ ''vel'')],
                bloco_de [rotulo ''Assunto'', valor_de ''Contrato'']])
     = children
         (capa_de [bloco_de [rotulo ''Classe'', valor_de (''C'' @ [CHR 0xED] @ ''vel'')],
                   bloco_de [rotulo ''Assunto'', valor_de ''Contrato'']])
   \<and> laco_divs (find_elements_tag ''div''
        (capa_de [bloco_de [rotulo ''Classe'', valor_de (''C'' @ [CHR 0xED] @ ''vel'')],
                  bloco_de [rotulo ''Assunto'', valor_de ''Contrato'']])) []
       = registro_da_capa
           (capa_de [bloco_de [rotulo ''Classe'', valor_de (''C'' @ [CHR 0xED] @ ''vel'')],
                     bloco_de [rotulo ''Assunto'', valor_de ''Contrato'']])
   \<and> registro_da_capa
        (capa_de [bloco_de [rotulo ''Classe'', valor_de (''C'' @ [CHR 0xED] @ ''vel'')],
                  bloco_de [rotulo ''Assunto'', valor_de ''Contrato'']])
       = [(''Classe'', ''C'' @ [CHR 0xED] @ ''vel''), (''Assunto'', ''Contrato'')]"
proof -
  let ?capa = "capa_de [bloco_de [rotulo ''Classe'', valor_de (''C'' @ [CHR 0xED] @ ''vel'')],
                        bloco_de [rotulo ''Assunto'', valor_de ''Contrato'']]"
  have h: "find_elements_tag ''div'' ?capa = children ?capa"
    by (simp add: capa_de_def bloco_de_def rotulo_def valor_de_def find_elements_tag_def)
  have r: "registro_da_capa ?capa
             = [(''Classe'', ''C'' @ [CHR 0xED] @ ''vel''), (''Assunto'', ''Contrato'')]"
    by (simp add: registro_da_capa_def campo_do_bloco_def ultimo_texto_def papel_de_def
          capa_de_def bloco_de_def rotulo_def valor_de_def)
  from laco_divs_registro [of ?capa "''a''" "''b''"] h r show ?thesis by simp
qed

text \<open>
  Claim C6 as stated fails when blocks nest. For the container whose two blocks hold
  their label and their value in inner \<^verbatim>\<open>div\<close> elements, the record of the
  immediate child blocks is \<open>Classe\<close>, \<open>Assunto\<close> with their values, while the code,
  which takes the outer and the inner \<^verbatim>\<open>div\<close> elements alike as blocks, returns
  \<open>Classe\<close> and \<open>Assunto\<close> with empty values and the last value under the empty key.
\<close>

theorem blocos_aninhados_registro:
  "registro_da_capa capa_aninhada
     = [(''Classe'', ''C'' @ [CHR 0xED] @ ''vel''), (''Assunto'', ''Contrato'')]
   \<and> laco_divs (find_elements_tag ''div'' capa_aninhada) []
     = [(''Classe'', []), ([], ''Contrato''), (''Assunto'', [])]
   \<and> map_of (laco_divs (find_elements_tag ''div'' capa_aninhada) []) ''Classe''
     \<noteq> Some (''C'' @ [CHR 0xED] @ ''vel'')"
proof -
  have s: "registro_da_capa capa_aninhada
     = [(''Classe'', ''C'' @ [CHR 0xED] @ ''vel''), (''Assunto'', ''Contrato'')]"
    by (simp add: registro_da_capa_def campo_do_bloco_def ultimo_texto_def papel_de_def
          capa_aninhada_def capa_de_def bloco_de_def rotulo_def valor_de_def)
  have c: "laco_divs (find_elements_tag ''div'' capa_aninhada) []
     = [(''Classe'', []), ([], ''Contrato''), (''Assunto'', [])]"
    by (simp add: capa_aninhada_def capa_de_def bloco_de_def rotulo_def valor_de_def
          find_elements_tag_def)
  from s c show ?thesis by simp
qed

text \<open>
  Claim C7. The scan of one block commits one pair, by one dictionary assignment. With
  no label among the block's descendants the key is the empty string. With several
  labels or values the last label is the key and the last value is what is stored: a
  block with the label \<open>k\<close> twice and the values \<open>v1\<close>, \<open>v2\<close> commits \<open>(k, v2)\<close> only.
\<close>

theorem laco_divs_um_par:
  "laco_divs [bloco] info
     = AList.update (fst (campo_do_bloco bloco)) (snd (campo_do_bloco bloco)) info
   \<and> (filter (\<lambda>el. tag_name el = ''label'') (descendants b0) = []
        \<longrightarrow> laco_divs [b0] info = AList.update [] (snd (campo_do_bloco b0)) info)
   \<and> (filter (\<lambda>el. tag_name el = ''label'') (descendants b1) = ls @ [l]
        \<and> filter (\<lambda>el. tag_name el = ''span'') (descendants b1) = vs @ [v]
        \<longrightarrow> laco_divs [b1] info = AList.update (text_of l) (text_of v) info)
   \<and> laco_divs [bloco_de [rotulo k, valor_de v1, rotulo k, valor_de v2]] [] = [(k, v2)]"
proof -
  have um: "laco_divs [b] info
     = AList.update (fst (campo_do_bloco b)) (snd (campo_do_bloco b)) info" for b
    by (simp add: laco_elements_campo split: prod.splits)
  have sem: "laco_divs [b0] info = AList.update [] (snd (campo_do_bloco b0)) info"
    if "filter (\<lambda>el. tag_name el = ''label'') (descendants b0) = []"
    using that by (subst um) (simp add: campo_do_bloco_def ultimo_texto_nenhum papel_Label)
  have ult: "laco_divs [b1] info = AList.update (text_of l) (text_of v) info"
    if "filter (\<lambda>el. tag_name el = ''label'') (descendants b1) = ls @ [l]"
      and "filter (\<lambda>el. tag_name el = ''span'') (descendants b1) = vs @ [v]"
    using that
    by (subst um)
       (simp add: campo_do_bloco_def ultimo_texto_snoc [of Label _ ls l]
          ultimo_texto_snoc [of Value _ vs v] papel_Label papel_Value)
  have ex: "laco_divs [bloco_de [rotulo k, valor_de v1, rotulo k, valor_de v2]] [] = [(k, v2)]"
    by (simp add: bloco_de_def rotulo_def valor_de_def)
  from um sem ult ex show ?thesis by blast
qed

theorem laco_divs_um_par_witness:
  "filter (\<lambda>el. tag_name el = ''label'') (descendants (bloco_de [valor_de ''Contrato''])) = []
   \<and> laco_divs [bloco_de [valor_de ''Contrato'']] [] = [([], ''Contrato'')]
   \<and> filter (\<lambda>el. tag_name el = ''label'')
        (descendants (bloco_de [rotulo ''Classe'', valor_de ''a'', rotulo ''Classe'', valor_de ''b'']))
       = [rotulo ''Classe''] @ [rotulo ''Classe'']
   \<and> filter (\<lambda>el. tag_name el = ''span'')
        (descendants (bloco_de [rotulo ''Classe'', valor_de ''a'', rotulo ''Classe'', valor_de ''b'']))
       = [valor_de ''a''] @ [valor_de ''b'']
   \<and> laco_divs [bloco_de [rotulo ''Classe'', valor_de ''a'', rotulo ''Classe'', valor_de ''b'']] []
       = [(''Classe'', ''b'')]"
  using laco_divs_um_par [of "bloco_de [valor_de ''Contrato'']" "[]"
      "bloco_de [valor_de ''Contrato'']"
      "bloco_de [rotulo ''Classe'', valor_de ''a'', rotulo ''Classe'', valor_de ''b'']"
      "[rotulo ''Classe'']" "rotulo ''Classe''" "[valor_de ''a'']" "valor_de ''b''"
      "''k''" "''1''" "''2''"]
  by (simp add: bloco_de_def rotulo_def valor_de_def)

section \<open>The loop over the names\<close>

lemma nomes_do_log_append: "nomes_do_log (xs @ ys) = nomes_do_log xs @ nomes_do_log ys"
  by (induction xs rule: nomes_do_log.induct) simp_all

lemma laco_nomes_log:
  "nomes_do_log (fst (laco_nomes chamar idx tot nomes log s)) = nomes_do_log log @ nomes"
  by (induction nomes arbitrary: idx log s)
     (auto simp: nomes_do_log_append split: prod.splits sum.splits)

lemma laco_nomes_estado:
  "snd (laco_nomes chamar idx tot nomes log s) = foldl (\<lambda>s0 nome. snd (chamar nome s0)) s nomes"
  by (induction nomes arbitrary: idx log s) (auto split: prod.splits sum.splits)

lemma laco_nomes_sem_erro:
  "(\<And>nome s0. \<exists>r. fst (chamar nome s0) = Inr r) \<Longrightarrow>
   fst (laco_nomes chamar idx tot nomes log s)
     = log @ map (\<lambda>(i, nome). Processando i tot nome) (List.enumerate idx nomes)"
proof (induction nomes arbitrary: idx log s)
  case Nil
  show ?case by simp
next
  case (Cons nome nomes)
  obtain r s1 where c: "chamar nome s = (Inr r, s1)"
    using Cons.prems [of nome s] by (cases "chamar nome s") auto
  show ?case
    using Cons.IH [OF Cons.prems, of "Suc idx" "log @ [Processando idx tot nome]" s1] c
    by simp
qed

text \<open>
  Claim C9. Whatever the call in the \<^verbatim>\<open>try\<close> block does for a name, raising or
  not, the loop logs the \<^verbatim>\<open>Processando\<close> line of every name of the list in list
  order, and the state it ends in is the state reached by making the call for every name
  in turn. For the run itself: the log holds one \<^verbatim>\<open>Processando\<close> line per name,
  numbered from 1 as \<^verbatim>\<open>enumerate(nomes, 1)\<close> does, and the final state is the
  result of \<^verbatim>\<open>processar_nome\<close> on every name in turn.
\<close>

theorem laco_nomes_todos_em_ordem:
  "nomes_do_log (fst (laco_nomes chamar idx tot nomes log s)) = nomes_do_log log @ nomes
   \<and> snd (laco_nomes chamar idx tot nomes log s)
       = foldl (\<lambda>s0 nome. snd (chamar nome s0)) s nomes
   \<and> fst (processar_todos_nomes w nomes s0)
       = map (\<lambda>(i, nome). Processando i (length nomes) nome) (List.enumerate 1 nomes)
   \<and> snd (processar_todos_nomes w nomes s0)
       = foldl (\<lambda>s1 nome. snd (processar_nome w nome s1)) s0 nomes"
proof -
  have a: "fst (processar_todos_nomes w nomes s0)
       = map (\<lambda>(i, nome). Processando i (length nomes) nome) (List.enumerate 1 nomes)"
    unfolding processar_todos_nomes_def
    by (subst laco_nomes_sem_erro) (auto split: prod.splits)
  have b: "snd (processar_todos_nomes w nomes s0)
       = foldl (\<lambda>s1 nome. snd (processar_nome w nome s1)) s0 nomes"
    unfolding processar_todos_nomes_def laco_nomes_estado
    by (rule arg_cong [where f = "\<lambda>f. foldl f s0 nomes"])
       (intro ext, simp split: prod.splits)
  from a b show ?thesis by (simp add: laco_nomes_log laco_nomes_estado)
qed

section \<open>The "no results" page\<close>

text \<open>
  Claim C5. When the search for a name succeeded and the page it led to has the
  "no results" label, \<^verbatim>\<open>extrair_dados_processos\<close> returns the empty list (a value:
  nothing is raised) and leaves the page as it is, and \<^verbatim>\<open>processar_nome\<close> records
  the empty list under the name.
\<close>

theorem sem_resultados_lista_vazia:
  assumes "realizar_busca w nome (driver s) = (True, d1)"
    and "driver_find_id_child ''divInfraAreaTabela'' ''label'' d1 = Inr mensagem_vazia"
  shows "extrair_dados_processos w nome d1 = ([], d1)
    \<and> fst (processar_nome w nome s) = []
    \<and> map_of (resultados (snd (processar_nome w nome s))) nome = Some []"
  using assms
  by (simp add: extrair_dados_processos_def processar_nome_def registrar_def update_conv')

theorem sem_resultados_lista_vazia_witness:
  "realizar_busca site_sem_resultados ''ADILSON DA SILVA'' (driver \<lparr>driver = None, resultados = []\<rparr>)
     = (True, Some pagina_sem_resultados)
   \<and> driver_find_id_child ''divInfraAreaTabela'' ''label'' (Some pagina_sem_resultados)
     = Inr (Element ''label'' [] ''Nenhum registro encontrado'' [])
   \<and> extrair_dados_processos site_sem_resultados ''ADILSON DA SILVA'' (Some pagina_sem_resultados)
     = ([], Some pagina_sem_resultados)
   \<and> fst (processar_nome site_sem_resultados ''ADILSON DA SILVA'' \<lparr>driver = None, resultados = []\<rparr>) = []
   \<and> map_of (resultados (snd (processar_nome site_sem_resultados ''ADILSON DA SILVA''
        \<lparr>driver = None, resultados = []\<rparr>))) ''ADILSON DA SILVA'' = Some []"
proof -
  have h1: "realizar_busca site_sem_resultados ''ADILSON DA SILVA'' (driver \<lparr>driver = None, resultados = []\<rparr>)
     = (True, Some pagina_sem_resultados)"
    by (simp add: realizar_busca_def driver_get_def site_sem_resultados_def aguardar_elemento_def
          driver_find_id_def xpath_id_def pagina_portal_def get_attribute_def)
  have h2: "driver_find_id_child ''divInfraAreaTabela'' ''label'' (Some pagina_sem_resultados)
     = Inr (Element ''label'' [] ''Nenhum registro encontrado'' [])"
    by (simp add: driver_find_id_child_def pagina_sem_resultados_def)
  from sem_resultados_lista_vazia [OF h1 h2] h1 h2 show ?thesis by simp
qed

section \<open>The entries of the store after a run\<close>

lemmas ev_site = realizar_busca_def driver_get_def aguardar_elemento_def driver_find_id_def
  xpath_id_def pagina_portal_def get_attribute_def

lemma realizar_busca_fst: "fst (realizar_busca w n d) = fst (realizar_busca w n d')"
  by (simp add: realizar_busca_def driver_get_def split: option.splits)

lemma realizar_busca_snd:
  "fst (realizar_busca w n d) \<Longrightarrow> snd (realizar_busca w n d) = snd (realizar_busca w n d')"
  by (simp add: realizar_busca_def driver_get_def split: option.splits)

lemma processar_nome_resultados:
  "resultados (snd (processar_nome w n s)) =
     (if fst (realizar_busca w n d0)
      then AList.update n (fst (extrair_dados_processos w n (snd (realizar_busca w n d0))))
             (resultados s)
      else resultados s)"
proof (cases "realizar_busca w n (driver s)")
  case (Pair b d1)
  show ?thesis
  proof (cases b)
    case True
    with Pair have "fst (realizar_busca w n d0)" and "snd (realizar_busca w n d0) = d1"
      using realizar_busca_fst [of w n "driver s" d0] realizar_busca_snd [of w n "driver s" d0]
      by simp_all
    with Pair True show ?thesis
      by (simp add: processar_nome_def registrar_def split: prod.splits)
  next
    case False
    with Pair have "\<not> fst (realizar_busca w n d0)"
      using realizar_busca_fst [of w n "driver s" d0] by simp
    with Pair False show ?thesis
      by (simp add: processar_nome_def)
  qed
qed

lemma foldl_update_map_of:
  "map_of (foldl (\<lambda>r n. if ok n then AList.update n (E n) r else r) r0 ns) k
     = (if k \<in> set ns \<and> ok k then Some (E k) else map_of r0 k)"
  by (induction ns arbitrary: r0) (auto simp: update_conv')

lemma foldl_update_distinct:
  "distinct (map fst r0) \<Longrightarrow>
   distinct (map fst (foldl (\<lambda>r n. if ok n then AList.update n (E n) r else r) r0 ns))"
  by (induction ns arbitrary: r0) (auto simp: distinct_update)

lemma foldl_processar_nome_resultados:
  "resultados (foldl (\<lambda>s1 nome. snd (processar_nome w nome s1)) s nomes)
     = foldl (\<lambda>r n. if fst (realizar_busca w n d0)
                      then AList.update n
                             (fst (extrair_dados_processos w n (snd (realizar_busca w n d0)))) r
                      else r) (resultados s) nomes"
proof (induction nomes arbitrary: s)
  case Nil
  show ?case by simp
next
  case (Cons n nomes)
  show ?case
    using Cons.IH [of "snd (processar_nome w n s)"]
    by (simp add: processar_nome_resultados [of w n s d0])
qed

lemma processar_todos_nomes_snd:
  "snd (processar_todos_nomes w nomes s)
     = foldl (\<lambda>s1 nome. snd (processar_nome w nome s1)) s nomes"
  unfolding processar_todos_nomes_def laco_nomes_estado
  by (rule arg_cong [where f = "\<lambda>f. foldl f s nomes"]) (intro ext, simp split: prod.splits)

text \<open>
  Claim C1, as the code has it. After a run over \<open>nomes\<close>: a name of the list whose
  search succeeds has an entry, and its value is the list that extraction returned for
  it (the empty list when extraction found or kept nothing); a name whose search fails
  has the entry it had before the run, so none when the store did not hold it; and the
  keys of the store stay distinct, so an entry is the only one of its name.
\<close>

theorem processar_todos_nomes_entradas:
  "(n1 \<in> set nomes \<and> fst (realizar_busca w n1 d0) \<longrightarrow>
      map_of (resultados (snd (processar_todos_nomes w nomes s))) n1
        = Some (fst (extrair_dados_processos w n1 (snd (realizar_busca w n1 d0)))))
   \<and> (\<not> fst (realizar_busca w n2 d0) \<longrightarrow>
      map_of (resultados (snd (processar_todos_nomes w nomes s))) n2 = map_of (resultados s) n2)
   \<and> (distinct (map fst (resultados s)) \<longrightarrow>
      distinct (map fst (resultados (snd (processar_todos_nomes w nomes s)))))"
  by (simp add: processar_todos_nomes_snd foldl_processar_nome_resultados [of w s nomes d0]
        foldl_update_map_of foldl_update_distinct)

text \<open>
  Claim C1 as stated fails: when the portal is down the search for the only name of the
  run fails, \<^verbatim>\<open>processar_nome\<close> returns before the assignment to
  \<^verbatim>\<open>self.resultados\<close>, and the store is empty after the run.
\<close>

theorem busca_falha_sem_entrada:
  "''ADILSON DA SILVA'' \<in> set [''ADILSON DA SILVA'']
   \<and> resultados (snd (processar_todos_nomes site_fora_do_ar [''ADILSON DA SILVA'']
        \<lparr>driver = None, resultados = []\<rparr>)) = []
   \<and> map_of (resultados (snd (processar_todos_nomes site_fora_do_ar [''ADILSON DA SILVA'']
        \<lparr>driver = None, resultados = []\<rparr>))) ''ADILSON DA SILVA'' \<noteq> Some []"
  by (simp add: processar_todos_nomes_def processar_nome_def realizar_busca_def driver_get_def
        site_fora_do_ar_def)

theorem processar_todos_nomes_entradas_witness:
  "''ADILSON DA SILVA'' \<in> set [''ADILSON DA SILVA'', ''OUTRO NOME'']
   \<and> fst (realizar_busca site_sem_resultados ''ADILSON DA SILVA'' None)
   \<and> map_of (resultados (snd (processar_todos_nomes site_sem_resultados
        [''ADILSON DA SILVA'', ''OUTRO NOME''] \<lparr>driver = None, resultados = []\<rparr>)))
        ''ADILSON DA SILVA'' = Some []
   \<and> \<not> fst (realizar_busca site_sem_resultados ''OUTRO NOME'' None)
   \<and> map_of (resultados (snd (processar_todos_nomes site_sem_resultados
        [''ADILSON DA SILVA'', ''OUTRO NOME''] \<lparr>driver = None, resultados = []\<rparr>)))
        ''OUTRO NOME'' = None
   \<and> distinct (map fst (resultados \<lparr>driver = None, resultados = []\<rparr>))
   \<and> distinct (map fst (resultados (snd (processar_todos_nomes site_sem_resultados
        [''ADILSON DA SILVA'', ''OUTRO NOME''] \<lparr>driver = None, resultados = []\<rparr>))))"
proof -
  have ok: "realizar_busca site_sem_resultados ''ADILSON DA SILVA'' None
              = (True, Some pagina_sem_resultados)"
    by (simp add: ev_site site_sem_resultados_def)
  have vazio: "extrair_dados_processos site_sem_resultados ''ADILSON DA SILVA''
                 (Some pagina_sem_resultados) = ([], Some pagina_sem_resultados)"
    by (simp add: extrair_dados_processos_def driver_find_id_child_def pagina_sem_resultados_def)
  have falha: "\<not> fst (realizar_busca site_sem_resultados ''OUTRO NOME'' None)"
    by (simp add: ev_site site_sem_resultados_def)
  show ?thesis
    using processar_todos_nomes_entradas [of "''ADILSON DA SILVA''"
        "[''ADILSON DA SILVA'', ''OUTRO NOME'']" site_sem_resultados None "\<lparr>driver = None, resultados = []\<rparr>" "''OUTRO NOME''"]
      ok vazio falha
    by simp
qed

section \<open>A failing link\<close>

text \<open>
  Claim C2. On the sample site the results page yields three links; visited on its own,
  the first gives the record \<open>Classe = 1\<close>, the second raises (its case page has no
  summary container) and the third gives the record \<open>Classe = 3\<close>. Extraction over the
  results page returns the first record only: the exception of the second link ends the
  loop over the links.
\<close>

theorem link_com_falha_encerra_extracao:
  "laco_linhas ''ADILSON DA SILVA''
      (find_elements_tag ''tr''
         (tabela_de [linha_cabecalho, linha_resultado ''ADILSON DA SILVA'' ''lista1'',
            linha_resultado ''ADILSON DA SILVA'' ''lista2'',
            linha_resultado ''ADILSON DA SILVA'' ''lista3''])) []
     = [Some ''lista1'', Some ''lista2'', Some ''lista3'']
   \<and> fst (visitar_link site_tres_links (Some ''lista1'') None) = Inr [(''Classe'', ''1'')]
   \<and> fst (visitar_link site_tres_links (Some ''lista2'') None) = Inl NoSuchElementException
   \<and> fst (visitar_link site_tres_links (Some ''lista3'') None) = Inr [(''Classe'', ''3'')]
   \<and> realizar_busca site_tres_links ''ADILSON DA SILVA'' None
       = (True, Some (pagina_resultados
          [linha_cabecalho, linha_resultado ''ADILSON DA SILVA'' ''lista1'',
           linha_resultado ''ADILSON DA SILVA'' ''lista2'',
           linha_resultado ''ADILSON DA SILVA'' ''lista3'']))
   \<and> fst (extrair_dados_processos site_tres_links ''ADILSON DA SILVA''
        (Some (pagina_resultados
          [linha_cabecalho, linha_resultado ''ADILSON DA SILVA'' ''lista1'',
           linha_resultado ''ADILSON DA SILVA'' ''lista2'',
           linha_resultado ''ADILSON DA SILVA'' ''lista3''])))
       = [[(''Classe'', ''1'')]]"
proof -
  note ev = tabela_de_def linha_resultado_def linha_cabecalho_def find_elements_tag_def
    find_element_tag_def get_attribute_def pagina_resultados_def pagina_processo_def
    pagina_sem_capa_def site_tres_links_def visitar_link_def driver_get_def
    driver_find_id_child_def driver_find_id_def xpath_id_def capa_de_def bloco_de_def
    rotulo_def valor_de_def EPROC_URL_def
  have l: "laco_linhas ''ADILSON DA SILVA''
      (find_elements_tag ''tr''
         (tabela_de [linha_cabecalho, linha_resultado ''ADILSON DA SILVA'' ''lista1'',
            linha_resultado ''ADILSON DA SILVA'' ''lista2'',
            linha_resultado ''ADILSON DA SILVA'' ''lista3''])) []
     = [Some ''lista1'', Some ''lista2'', Some ''lista3'']"
    by (simp add: ev)
  have v1: "visitar_link site_tres_links (Some ''lista1'') d
             = (Inr [(''Classe'', ''1'')], Some (pagina_processo ''1''))" for d
    by (simp add: ev)
  have v2: "visitar_link site_tres_links (Some ''lista2'') d
             = (Inl NoSuchElementException, Some pagina_sem_capa)" for d
    by (simp add: ev)
  have v3: "visitar_link site_tres_links (Some ''lista3'') d
             = (Inr [(''Classe'', ''3'')], Some (pagina_processo ''3''))" for d
    by (simp add: ev)
  have b: "realizar_busca site_tres_links ''ADILSON DA SILVA'' None
       = (True, Some (pagina_resultados
          [linha_cabecalho, linha_resultado ''ADILSON DA SILVA'' ''lista1'',
           linha_resultado ''ADILSON DA SILVA'' ''lista2'',
           linha_resultado ''ADILSON DA SILVA'' ''lista3'']))"
    by (simp add: ev_site site_tres_links_def)
  let ?ls = "[linha_cabecalho, linha_resultado ''ADILSON DA SILVA'' ''lista1'',
            linha_resultado ''ADILSON DA SILVA'' ''lista2'',
            linha_resultado ''ADILSON DA SILVA'' ''lista3'']"
  have t: "driver_find_id_child ''divInfraAreaTabela'' ''table'' (Some (pagina_resultados ?ls))
             = Inr (tabela_de ?ls)"
    by (simp add: driver_find_id_child_def pagina_resultados_def tabela_de_def)
  have n: "driver_find_id_child ''divInfraAreaTabela'' ''label'' (Some (pagina_resultados ?ls))
             = Inl NoSuchElementException"
    by (simp add: driver_find_id_child_def pagina_resultados_def tabela_de_def
          linha_resultado_def linha_cabecalho_def)
  have e: "fst (extrair_dados_processos site_tres_links ''ADILSON DA SILVA''
        (Some (pagina_resultados
          [linha_cabecalho, linha_resultado ''ADILSON DA SILVA'' ''lista1'',
           linha_resultado ''ADILSON DA SILVA'' ''lista2'',
           linha_resultado ''ADILSON DA SILVA'' ''lista3''])))
       = [[(''Classe'', ''1'')]]"
    by (simp add: extrair_dados_processos_def t n l v1 v2 v3)
  from l v1 v2 v3 b e show ?thesis by simp
qed

end
